theory Spec2Isabelle
  imports Complex_Main "HOL-Library.Sublist"
begin

section \<open>Host-language values\<close>

text \<open>
  The handlers are TypeScript running on a JavaScript engine. A runtime \<open>number\<close> that
  comes out of \<open>Number(string)\<close> may be \<open>NaN\<close> or infinite, so parsed bounds are
  values of \<open>number\<close>. The numeric fields of the fixture records are finite literals and
  are kept as rationals with the value of the literal as written. The finite doubles are
  rationals and are ordered as such, so the comparisons are the program's; what is not
  represented is the rounding of a decimal literal to the nearest double.
\<close>

datatype number = NaN | NegInfinity | Finite rat | PosInfinity

text \<open>The relational operators of the language: every comparison with \<open>NaN\<close> is false.\<close>

fun js_lt :: "number \<Rightarrow> number \<Rightarrow> bool" where
  "js_lt NaN _ = False"
| "js_lt _ NaN = False"
| "js_lt (Finite a) (Finite b) = (a < b)"
| "js_lt _ NegInfinity = False"
| "js_lt NegInfinity _ = True"
| "js_lt PosInfinity _ = False"
| "js_lt _ PosInfinity = True"

definition js_gt :: "number \<Rightarrow> number \<Rightarrow> bool" where
  "js_gt a b = js_lt b a"

definition js_le :: "number \<Rightarrow> number \<Rightarrow> bool" where
  "js_le a b = (a \<noteq> NaN \<and> b \<noteq> NaN \<and> (a = b \<or> js_lt a b))"

definition js_ge :: "number \<Rightarrow> number \<Rightarrow> bool" where
  "js_ge a b = js_le b a"

text \<open>
  Strings are lists of 8-bit characters (the Latin-1 range of the language's UTF-16 code
  units). \<open>trim\<close> removes white space and line terminators at both ends; in this range
  these are TAB, LF, VT, FF, CR, SP and NBSP.
\<close>

definition isWhiteSpace :: "char \<Rightarrow> bool" where
  "isWhiteSpace c = (of_char c \<in> set [9, 10, 11, 12, 13, 32, 160 :: nat])"

definition trim :: "string \<Rightarrow> string" where
  "trim s = rev (dropWhile isWhiteSpace (rev (dropWhile isWhiteSpace s)))"

text \<open>
  \<open>toLowerCase\<close> on this range: \<open>A\<close>..\<open>Z\<close> and the upper-case letters
  \<open>0xC0\<close>..\<open>0xDE\<close> (but not the multiplication sign \<open>0xD7\<close>) move up by 32.
\<close>

definition toLowerChar :: "char \<Rightarrow> char" where
  "toLowerChar c =
     (let n = (of_char c :: nat) in
      if (65 \<le> n \<and> n \<le> 90) \<or> (192 \<le> n \<and> n \<le> 222 \<and> n \<noteq> 215)
      then char_of (n + 32) else c)"

definition toLowerCase :: "string \<Rightarrow> string" where
  "toLowerCase s = map toLowerChar s"

text \<open>\<open>haystack.includes(needle)\<close>: does \<open>needle\<close> occur in \<open>haystack\<close> as a contiguous run?\<close>

fun includes_str :: "string \<Rightarrow> string \<Rightarrow> bool" where
  "includes_str [] needle = (needle = [])"
| "includes_str (c # cs) needle = (prefix needle (c # cs) \<or> includes_str cs needle)"

text \<open>
  \<open>URLSearchParams\<close>: the query string as its ordered list of name/value pairs;
  \<open>get\<close> returns the first value of a name, or \<open>null\<close> (\<open>None\<close>).
\<close>

type_synonym URLSearchParams = "(string \<times> string) list"

definition get :: "URLSearchParams \<Rightarrow> string \<Rightarrow> string option" where
  "get ps name = map_of ps name"

definition delete :: "string \<Rightarrow> URLSearchParams \<Rightarrow> URLSearchParams" where
  "delete name ps = filter (\<lambda>p. fst p \<noteq> name) ps"

text \<open>
  \<open>Array.from(new Set(xs))\<close>: a \<open>Set\<close> keeps its elements in insertion order and
  ignores an element it already holds.
\<close>

fun Set_add :: "'a list \<Rightarrow> 'a \<Rightarrow> 'a list" where
  "Set_add acc x = (if x \<in> set acc then acc else acc @ [x])"

definition Array_from_Set :: "'a list \<Rightarrow> 'a list" where
  "Array_from_Set xs = foldl Set_add [] xs"

text \<open>
  A response: \<open>HttpResponse.json(x)\<close> has status 200 and body \<open>x\<close>;
  \<open>new HttpResponse(null, {status: n})\<close> has no body.
\<close>

datatype 'a HttpResponse = HttpResponse (status: nat) (body: "'a option")

definition json :: "'a \<Rightarrow> 'a HttpResponse" where
  "json x = HttpResponse 200 (Some x)"

record 'd Data =
  data :: 'd

record ('d, 'm) DataMeta = "'d Data" +
  meta :: 'm

section \<open>Fixture store\<close>

datatype StockRating = Buy | Hold | Sell

fun StockRating_str :: "StockRating \<Rightarrow> string" where
  "StockRating_str Buy = ''Buy''"
| "StockRating_str Hold = ''Hold''"
| "StockRating_str Sell = ''Sell''"

record Stock =
  stock_id :: string
  ticker :: string
  company :: string
  sector :: string
  price :: rat
  changePercent :: rat
  volume :: rat
  marketCap :: rat
  rating :: StockRating
  lastUpdated :: string

datatype BondRating = AAA | AA | A | BBB | BB

datatype Currency = USD | EUR

record Bond =
  bond_id :: string
  bond_name :: string
  issuer :: string
  bond_rating :: BondRating
  coupon :: rat
  maturity :: string
  yieldToMaturity :: rat
  duration :: rat
  bond_price :: rat
  currency :: Currency
  nextCall :: "string option"
  bond_sector :: string
  issue_size :: rat
  lastTraded :: string

definition stocks :: "Stock list" where
  "stocks = [
  \<lparr>stock_id = ''stk-001'', ticker = ''ALNA'', company = ''Aluna Energy'', sector = ''Energy'',
    price = 84.12, changePercent = 1.84, volume = 5230000, marketCap = 24800000000,
    rating = Buy, lastUpdated = ''2026-02-11T14:12:00Z''\<rparr>,
  \<lparr>stock_id = ''stk-002'', ticker = ''BLFD'', company = ''Bluefield Cloud'', sector = ''Technology'',
    price = 142.75, changePercent = (-0.62), volume = 8120000, marketCap = 91800000000,
    rating = Hold, lastUpdated = ''2026-02-11T14:09:00Z''\<rparr>,
  \<lparr>stock_id = ''stk-003'', ticker = ''CSTL'', company = ''Coastal Materials'', sector = ''Industrials'',
    price = 58.44, changePercent = 0.31, volume = 1830000, marketCap = 11200000000,
    rating = Hold, lastUpdated = ''2026-02-11T14:05:00Z''\<rparr>,
  \<lparr>stock_id = ''stk-004'', ticker = ''DLWN'', company = ''Dawn Foods'', sector = ''Consumer Staples'',
    price = 39.9, changePercent = (-1.12), volume = 2260000, marketCap = 7600000000,
    rating = Buy, lastUpdated = ''2026-02-11T14:08:00Z''\<rparr>,
  \<lparr>stock_id = ''stk-005'', ticker = ''ECHO'', company = ''Echo Mobility'', sector = ''Consumer Discretionary'',
    price = 27.63, changePercent = 2.21, volume = 6410000, marketCap = 9800000000,
    rating = Buy, lastUpdated = ''2026-02-11T14:11:00Z''\<rparr>,
  \<lparr>stock_id = ''stk-006'', ticker = ''FLXR'', company = ''Flux Robotics'', sector = ''Technology'',
    price = 212.4, changePercent = 3.05, volume = 4320000, marketCap = 156000000000,
    rating = Buy, lastUpdated = ''2026-02-11T14:10:00Z''\<rparr>,
  \<lparr>stock_id = ''stk-007'', ticker = ''GNRD'', company = ''Greenridge Utilities'', sector = ''Utilities'',
    price = 62.15, changePercent = (-0.18), volume = 1960000, marketCap = 21400000000,
    rating = Hold, lastUpdated = ''2026-02-11T14:07:00Z''\<rparr>,
  \<lparr>stock_id = ''stk-008'', ticker = ''HLXR'', company = ''Helix Health'', sector = ''Healthcare'',
    price = 94.3, changePercent = 1.02, volume = 3890000, marketCap = 48600000000,
    rating = Buy, lastUpdated = ''2026-02-11T14:06:00Z''\<rparr>,
  \<lparr>stock_id = ''stk-009'', ticker = ''IONA'', company = ''Iona Renewables'', sector = ''Energy'',
    price = 46.78, changePercent = (-2.34), volume = 7120000, marketCap = 15200000000,
    rating = Sell, lastUpdated = ''2026-02-11T14:09:00Z''\<rparr>,
  \<lparr>stock_id = ''stk-010'', ticker = ''JUNO'', company = ''Juno Logistics'', sector = ''Industrials'',
    price = 73.88, changePercent = 0.54, volume = 2740000, marketCap = 18600000000,
    rating = Hold, lastUpdated = ''2026-02-11T14:04:00Z''\<rparr>,
  \<lparr>stock_id = ''stk-011'', ticker = ''KOVA'', company = ''Kova Financial'', sector = ''Financials'',
    price = 129.15, changePercent = 1.6, volume = 5270000, marketCap = 68200000000,
    rating = Buy, lastUpdated = ''2026-02-11T14:07:00Z''\<rparr>,
  \<lparr>stock_id = ''stk-012'', ticker = ''LUMA'', company = ''Luma Semiconductors'', sector = ''Technology'',
    price = 311.02, changePercent = (-1.45), volume = 6110000, marketCap = 234000000000,
    rating = Hold, lastUpdated = ''2026-02-11T14:03:00Z''\<rparr>,
  \<lparr>stock_id = ''stk-013'', ticker = ''MARN'', company = ''Mariner Apparel'', sector = ''Consumer Discretionary'',
    price = 33.67, changePercent = 0.22, volume = 1650000, marketCap = 5100000000,
    rating = Hold, lastUpdated = ''2026-02-11T14:11:00Z''\<rparr>,
  \<lparr>stock_id = ''stk-014'', ticker = ''NOVA'', company = ''Nova MedTech'', sector = ''Healthcare'',
    price = 118.2, changePercent = 2.7, volume = 3470000, marketCap = 72200000000,
    rating = Buy, lastUpdated = ''2026-02-11T14:02:00Z''\<rparr>,
  \<lparr>stock_id = ''stk-015'', ticker = ''ORBT'', company = ''Orbit Streaming'', sector = ''Communication Services'',
    price = 51.96, changePercent = (-0.4), volume = 2890000, marketCap = 19400000000,
    rating = Hold, lastUpdated = ''2026-02-11T14:12:00Z''\<rparr>,
  \<lparr>stock_id = ''stk-016'', ticker = ''PRSM'', company = ''Prism Retail'', sector = ''Consumer Discretionary'',
    price = 64.38, changePercent = (-1.8), volume = 4780000, marketCap = 22100000000,
    rating = Sell, lastUpdated = ''2026-02-11T14:06:00Z''\<rparr>,
  \<lparr>stock_id = ''stk-017'', ticker = ''QUAY'', company = ''Quay Hospitality'', sector = ''Consumer Discretionary'',
    price = 22.75, changePercent = 1.14, volume = 1320000, marketCap = 3900000000,
    rating = Hold, lastUpdated = ''2026-02-11T14:04:00Z''\<rparr>,
  \<lparr>stock_id = ''stk-018'', ticker = ''RIVR'', company = ''Riverline Shipping'', sector = ''Industrials'',
    price = 41.22, changePercent = 0.08, volume = 2030000, marketCap = 8400000000,
    rating = Hold, lastUpdated = ''2026-02-11T14:08:00Z''\<rparr>,
  \<lparr>stock_id = ''stk-019'', ticker = ''SOLR'', company = ''Solara Power'', sector = ''Utilities'',
    price = 76.54, changePercent = 1.36, volume = 2190000, marketCap = 26800000000,
    rating = Buy, lastUpdated = ''2026-02-11T14:12:00Z''\<rparr>,
  \<lparr>stock_id = ''stk-020'', ticker = ''TRMN'', company = ''Truman Insurance'', sector = ''Financials'',
    price = 92.41, changePercent = (-0.98), volume = 2410000, marketCap = 35600000000,
    rating = Hold, lastUpdated = ''2026-02-11T14:10:00Z''\<rparr>,
  \<lparr>stock_id = ''stk-021'', ticker = ''URSA'', company = ''Ursa Defense'', sector = ''Industrials'',
    price = 158.9, changePercent = 2.48, volume = 4180000, marketCap = 104000000000,
    rating = Buy, lastUpdated = ''2026-02-11T14:03:00Z''\<rparr>,
  \<lparr>stock_id = ''stk-022'', ticker = ''VTRN'', company = ''Vitorra Biotech'', sector = ''Healthcare'',
    price = 67.19, changePercent = (-0.22), volume = 2950000, marketCap = 18900000000,
    rating = Hold, lastUpdated = ''2026-02-11T14:05:00Z''\<rparr>,
  \<lparr>stock_id = ''stk-023'', ticker = ''WISP'', company = ''Wisp Wireless'', sector = ''Communication Services'',
    price = 39.04, changePercent = 0.9, volume = 3770000, marketCap = 14200000000,
    rating = Buy, lastUpdated = ''2026-02-11T14:09:00Z''\<rparr>,
  \<lparr>stock_id = ''stk-024'', ticker = ''XENO'', company = ''Xeno Materials'', sector = ''Materials'',
    price = 55.67, changePercent = (-0.74), volume = 2080000, marketCap = 12600000000,
    rating = Hold, lastUpdated = ''2026-02-11T14:01:00Z''\<rparr>,
  \<lparr>stock_id = ''stk-025'', ticker = ''YARA'', company = ''Yara AgriTech'', sector = ''Materials'',
    price = 47.32, changePercent = 1.12, volume = 1890000, marketCap = 9800000000,
    rating = Buy, lastUpdated = ''2026-02-11T14:06:00Z''\<rparr>,
  \<lparr>stock_id = ''stk-026'', ticker = ''ZEND'', company = ''Zendara Software'', sector = ''Technology'',
    price = 188.56, changePercent = 0.44, volume = 5210000, marketCap = 112000000000,
    rating = Buy, lastUpdated = ''2026-02-11T14:12:00Z''\<rparr>,
  \<lparr>stock_id = ''stk-027'', ticker = ''AURM'', company = ''Auram Luxury'', sector = ''Consumer Discretionary'',
    price = 96.21, changePercent = (-2.16), volume = 1580000, marketCap = 27400000000,
    rating = Sell, lastUpdated = ''2026-02-11T14:02:00Z''\<rparr>,
  \<lparr>stock_id = ''stk-028'', ticker = ''BLOM'', company = ''Bloom Home'', sector = ''Consumer Discretionary'',
    price = 44.73, changePercent = 0.67, volume = 2210000, marketCap = 9800000000,
    rating = Hold, lastUpdated = ''2026-02-11T14:07:00Z''\<rparr>,
  \<lparr>stock_id = ''stk-029'', ticker = ''CLAR'', company = ''Clarity Payments'', sector = ''Financials'',
    price = 112.28, changePercent = 1.24, volume = 3980000, marketCap = 52100000000,
    rating = Buy, lastUpdated = ''2026-02-11T14:08:00Z''\<rparr>,
  \<lparr>stock_id = ''stk-030'', ticker = ''DRFT'', company = ''Drift Travel'', sector = ''Consumer Discretionary'',
    price = 24.08, changePercent = (-0.36), volume = 1670000, marketCap = 6200000000,
    rating = Hold, lastUpdated = ''2026-02-11T14:04:00Z''\<rparr>]"

datatype MandateType = discretionary | advisory | execution_only
datatype RiskProfile = conservative | moderate | aggressive
datatype InvestmentHorizon = short | medium | long
datatype AssetClass = equities | fixed_income | alternatives | multi_asset

record ServiceBrief =
  clientName :: string
  email :: string
  firm :: string
  portfolioSize :: rat
  mandateType :: MandateType
  riskProfile :: RiskProfile
  investmentHorizon :: InvestmentHorizon
  assetClass :: AssetClass
  instrument :: string
  brief_notes :: string

record Instrument =
  inst_id :: string
  inst_name :: string
  inst_ticker :: string

definition serviceBrief :: ServiceBrief where
  "serviceBrief =
     \<lparr>clientName = ''Alexandra Chen'', email = ''alexandra.chen@meridian.capital'',
      firm = ''Meridian Capital Partners'', portfolioSize = 12500000,
      mandateType = discretionary, riskProfile = moderate, investmentHorizon = long,
      assetClass = equities, instrument = ''inst-eq-003'',
      brief_notes = ''ESG-focused allocation preferred. Avoid fossil fuel exposure.''\<rparr>"

text \<open>The own properties of the object literal \<open>instrumentsByAssetClass\<close>, in order.\<close>

definition instrumentsByAssetClass :: "(string \<times> Instrument list) list" where
  "instrumentsByAssetClass = [
  (''equities'', [
    \<lparr>inst_id = ''inst-eq-001'', inst_name = ''Global Equity Fund'', inst_ticker = ''GLEQ''\<rparr>,
    \<lparr>inst_id = ''inst-eq-002'', inst_name = ''US Large Cap Growth'', inst_ticker = ''USLCG''\<rparr>,
    \<lparr>inst_id = ''inst-eq-003'', inst_name = ''Emerging Markets Fund'', inst_ticker = ''EMMK''\<rparr>,
    \<lparr>inst_id = ''inst-eq-004'', inst_name = ''Tech Innovation ETF'', inst_ticker = ''TCHIN''\<rparr>,
    \<lparr>inst_id = ''inst-eq-005'', inst_name = ''Dividend Aristocrats'', inst_ticker = ''DVAR''\<rparr>]),
  (''fixed-income'', [
    \<lparr>inst_id = ''inst-fi-001'', inst_name = ''Global Aggregate Bond'', inst_ticker = ''GLAG''\<rparr>,
    \<lparr>inst_id = ''inst-fi-002'', inst_name = ''US Treasury Fund'', inst_ticker = ''USTF''\<rparr>,
    \<lparr>inst_id = ''inst-fi-003'', inst_name = ''Investment Grade Corp'', inst_ticker = ''IGCF''\<rparr>,
    \<lparr>inst_id = ''inst-fi-004'', inst_name = ''High Yield Bond ETF'', inst_ticker = ''HYLD''\<rparr>,
    \<lparr>inst_id = ''inst-fi-005'', inst_name = ''Municipal Bond Fund'', inst_ticker = ''MUBF''\<rparr>]),
  (''alternatives'', [
    \<lparr>inst_id = ''inst-alt-001'', inst_name = ''Private Equity Fund'', inst_ticker = ''PEFD''\<rparr>,
    \<lparr>inst_id = ''inst-alt-002'', inst_name = ''Real Estate Trust'', inst_ticker = ''RRET''\<rparr>,
    \<lparr>inst_id = ''inst-alt-003'', inst_name = ''Commodities Basket'', inst_ticker = ''CMBT''\<rparr>,
    \<lparr>inst_id = ''inst-alt-004'', inst_name = ''Hedge Fund Strategies'', inst_ticker = ''HDGE''\<rparr>,
    \<lparr>inst_id = ''inst-alt-005'', inst_name = ''Infrastructure Fund'', inst_ticker = ''INFR''\<rparr>]),
  (''multi-asset'', [
    \<lparr>inst_id = ''inst-ma-001'', inst_name = ''Balanced Growth Fund'', inst_ticker = ''BALG''\<rparr>,
    \<lparr>inst_id = ''inst-ma-002'', inst_name = ''Target Date 2050'', inst_ticker = ''TD50''\<rparr>,
    \<lparr>inst_id = ''inst-ma-003'', inst_name = ''Risk Parity Fund'', inst_ticker = ''RSKP''\<rparr>,
    \<lparr>inst_id = ''inst-ma-004'', inst_name = ''Global Allocation'', inst_ticker = ''GLAL''\<rparr>,
    \<lparr>inst_id = ''inst-ma-005'', inst_name = ''Dynamic Income'', inst_ticker = ''DINC''\<rparr>])]"

definition bonds :: "Bond list" where
  "bonds = [
  \<lparr>bond_id = ''bond-001'', bond_name = ''Aurora Transit 2036'', issuer = ''Aurora Transit Authority'', bond_rating = AA,
    coupon = 3.75, maturity = ''2036-09-15'', yieldToMaturity = 4.18, duration = 8.4,
    bond_price = 98.62, currency = USD, nextCall = Some ''2031-09-15'', bond_sector = ''Municipal'',
    issue_size = 1200000000, lastTraded = ''2026-02-11T13:58:00Z''\<rparr>,
  \<lparr>bond_id = ''bond-002'', bond_name = ''Northbridge Health 2031'', issuer = ''Northbridge Health Group'', bond_rating = BBB,
    coupon = 5.25, maturity = ''2031-03-01'', yieldToMaturity = 5.48, duration = 4.9,
    bond_price = 101.05, currency = USD, nextCall = None, bond_sector = ''Healthcare'',
    issue_size = 850000000, lastTraded = ''2026-02-11T13:52:00Z''\<rparr>,
  \<lparr>bond_id = ''bond-003'', bond_name = ''Solara Grid 2040'', issuer = ''Solara Power Holdings'', bond_rating = A,
    coupon = 4.4, maturity = ''2040-11-30'', yieldToMaturity = 4.86, duration = 10.6,
    bond_price = 96.4, currency = USD, nextCall = Some ''2035-11-30'', bond_sector = ''Utilities'',
    issue_size = 1500000000, lastTraded = ''2026-02-11T14:02:00Z''\<rparr>,
  \<lparr>bond_id = ''bond-004'', bond_name = ''Meridian Ports 2029'', issuer = ''Meridian Ports & Logistics'', bond_rating = BB,
    coupon = 6.1, maturity = ''2029-07-15'', yieldToMaturity = 6.45, duration = 3.1,
    bond_price = 99.24, currency = USD, nextCall = None, bond_sector = ''Industrials'',
    issue_size = 420000000, lastTraded = ''2026-02-11T13:48:00Z''\<rparr>,
  \<lparr>bond_id = ''bond-005'', bond_name = ''Lumen Fiber 2038'', issuer = ''Lumen Fiber Networks'', bond_rating = A,
    coupon = 4.95, maturity = ''2038-05-01'', yieldToMaturity = 5.12, duration = 9.3,
    bond_price = 97.88, currency = EUR, nextCall = Some ''2034-05-01'', bond_sector = ''Communications'',
    issue_size = 960000000, lastTraded = ''2026-02-11T13:55:00Z''\<rparr>]"

definition sectors :: "string list" where
  "sectors = Array_from_Set (map sector stocks)"

section \<open>Parsing numeric parameters\<close>

text \<open>
  \<open>Number\<close> is a built-in of the language, not code of the repository, so the handler
  takes it as a parameter and every theorem below holds for each such function.
  What the handler itself does is \<open>parseNumber\<close>: \<open>null\<close> and a blank string give
  \<open>undefined\<close> (\<open>None\<close>), everything else is handed to \<open>Number\<close>.
\<close>

definition parseNumber :: "(string \<Rightarrow> number) \<Rightarrow> string option \<Rightarrow> number option" where
  "parseNumber Number v =
     (case v of
        None \<Rightarrow> None
      | Some s \<Rightarrow> if trim s = [] then None else Some (Number s))"

text \<open>
  For running the handlers on concrete requests, \<open>StringToNumber\<close> follows the
  language's grammar of numeric strings: white space around the literal is ignored, the
  blank string is 0, \<open>Infinity\<close> may carry a sign, a decimal literal may carry a sign,
  a fraction and an exponent, \<open>0x\<close>, \<open>0o\<close> and \<open>0b\<close> literals carry no sign, and
  everything else is \<open>NaN\<close>. It returns the exact value of the literal (no rounding to
  a double, no overflow to \<open>Infinity\<close>). No theorem about the handlers depends on it
  except the examples that run them on a concrete request.
\<close>

definition digitValue :: "char \<Rightarrow> nat option" where
  "digitValue c =
     (let n = (of_char c :: nat) in
      if 48 \<le> n \<and> n \<le> 57 then Some (n - 48)
      else if 97 \<le> n \<and> n \<le> 102 then Some (n - 87)
      else if 65 \<le> n \<and> n \<le> 70 then Some (n - 55)
      else None)"

definition isDigitIn :: "nat \<Rightarrow> char \<Rightarrow> bool" where
  "isDigitIn base c = (case digitValue c of None \<Rightarrow> False | Some d \<Rightarrow> d < base)"

definition digitsValue :: "nat \<Rightarrow> string \<Rightarrow> nat" where
  "digitsValue base ds =
     foldl (\<lambda>acc c. acc * base + (case digitValue c of None \<Rightarrow> 0 | Some d \<Rightarrow> d)) 0 ds"

definition radixLiteral :: "nat \<Rightarrow> string \<Rightarrow> number" where
  "radixLiteral base ds =
     (if ds \<noteq> [] \<and> list_all (isDigitIn base) ds
      then Finite (of_nat (digitsValue base ds)) else NaN)"

definition exponentPart :: "string \<Rightarrow> int option" where
  "exponentPart s =
     (case s of
        [] \<Rightarrow> Some 0
      | c # r \<Rightarrow>
          if c = CHR ''e'' \<or> c = CHR ''E'' then
            (let neg = (r \<noteq> [] \<and> hd r = CHR ''-'');
                 ds = (if r \<noteq> [] \<and> (hd r = CHR ''-'' \<or> hd r = CHR ''+'') then tl r else r)
             in if ds \<noteq> [] \<and> list_all (isDigitIn 10) ds
                then Some (if neg then - int (digitsValue 10 ds) else int (digitsValue 10 ds))
                else None)
          else None)"

definition decimalLiteral :: "string \<Rightarrow> number" where
  "decimalLiteral s =
     (let ip = takeWhile (isDigitIn 10) s;
          r1 = dropWhile (isDigitIn 10) s;
          fp = (if r1 \<noteq> [] \<and> hd r1 = CHR ''.'' then takeWhile (isDigitIn 10) (tl r1) else []);
          r2 = (if r1 \<noteq> [] \<and> hd r1 = CHR ''.'' then dropWhile (isDigitIn 10) (tl r1) else r1)
      in if ip = [] \<and> fp = [] then NaN
         else (case exponentPart r2 of
                 None \<Rightarrow> NaN
               | Some e \<Rightarrow>
                   Finite (of_nat (digitsValue 10 (ip @ fp)) / 10 ^ length fp
                           * (if e < 0 then 1 / 10 ^ nat (- e) else 10 ^ nat e))))"

definition number_negate :: "number \<Rightarrow> number" where
  "number_negate v =
     (case v of
        NaN \<Rightarrow> NaN
      | NegInfinity \<Rightarrow> PosInfinity
      | Finite q \<Rightarrow> Finite (- q)
      | PosInfinity \<Rightarrow> NegInfinity)"

definition unsignedLiteral :: "string \<Rightarrow> number" where
  "unsignedLiteral s = (if s = ''Infinity'' then PosInfinity else decimalLiteral s)"

definition StringToNumber :: "string \<Rightarrow> number" where
  "StringToNumber str =
     (let s = trim str in
      if s = [] then Finite 0
      else if take 2 s = ''0x'' \<or> take 2 s = ''0X'' then radixLiteral 16 (drop 2 s)
      else if take 2 s = ''0o'' \<or> take 2 s = ''0O'' then radixLiteral 8 (drop 2 s)
      else if take 2 s = ''0b'' \<or> take 2 s = ''0B'' then radixLiteral 2 (drop 2 s)
      else if hd s = CHR ''-'' then number_negate (unsignedLiteral (tl s))
      else if hd s = CHR ''+'' then unsignedLiteral (tl s)
      else unsignedLiteral s)"

section \<open>Query handlers\<close>

subsection \<open>\<open>GET /api/stocks\<close>\<close>

text \<open>
  The callback of \<open>stocks.filter\<close>, with the eight values the handler computed from the
  request. Each \<open>if (...) return false\<close> of the source is one branch, in its order.
\<close>

definition stockFilter ::
  "string \<Rightarrow> string \<Rightarrow> string \<Rightarrow> string \<Rightarrow>
   number option \<Rightarrow> number option \<Rightarrow> number option \<Rightarrow> number option \<Rightarrow> Stock \<Rightarrow> bool" where
  "stockFilter search sectorP ratingP change minPrice maxPrice minCap maxCap stock =
     (if search \<noteq> [] \<and>
         \<not> includes_str (toLowerCase (ticker stock @ '' '' @ company stock)) search
      then False
      else if sectorP \<noteq> ''All'' \<and> sector stock \<noteq> sectorP then False
      else if ratingP \<noteq> ''All'' \<and> StockRating_str (rating stock) \<noteq> ratingP then False
      else if change = ''positive'' \<and> changePercent stock \<le> 0 then False
      else if change = ''negative'' \<and> changePercent stock \<ge> 0 then False
      else if (case minPrice of None \<Rightarrow> False | Some m \<Rightarrow> js_lt (Finite (price stock)) m)
      then False
      else if (case maxPrice of None \<Rightarrow> False | Some m \<Rightarrow> js_gt (Finite (price stock)) m)
      then False
      else if (case minCap of None \<Rightarrow> False | Some m \<Rightarrow> js_lt (Finite (marketCap stock)) m)
      then False
      else if (case maxCap of None \<Rightarrow> False | Some m \<Rightarrow> js_gt (Finite (marketCap stock)) m)
      then False
      else True)"

record StocksMeta =
  meta_total :: nat
  meta_sectors :: "string list"

definition searchOf :: "URLSearchParams \<Rightarrow> string" where
  "searchOf ps = (case get ps ''search'' of None \<Rightarrow> [] | Some s \<Rightarrow> toLowerCase s)"

definition paramOr :: "URLSearchParams \<Rightarrow> string \<Rightarrow> string \<Rightarrow> string" where
  "paramOr ps name dflt = (case get ps name of None \<Rightarrow> dflt | Some s \<Rightarrow> s)"

definition filtered :: "(string \<Rightarrow> number) \<Rightarrow> URLSearchParams \<Rightarrow> Stock list" where
  "filtered Number ps =
     (let search = searchOf ps;
          sectorP = paramOr ps ''sector'' ''All'';
          ratingP = paramOr ps ''rating'' ''All'';
          change = paramOr ps ''change'' ''any'';
          minPrice = parseNumber Number (get ps ''minPrice'');
          maxPrice = parseNumber Number (get ps ''maxPrice'');
          minCap = parseNumber Number (get ps ''minCap'');
          maxCap = parseNumber Number (get ps ''maxCap'')
      in filter (stockFilter search sectorP ratingP change minPrice maxPrice minCap maxCap)
           stocks)"

definition ListStocks ::
  "(string \<Rightarrow> number) \<Rightarrow> URLSearchParams \<Rightarrow> (Stock list, StocksMeta) DataMeta HttpResponse" where
  "ListStocks Number ps =
     json \<lparr>data = filtered Number ps,
           meta = \<lparr>meta_total = length (filtered Number ps), meta_sectors = sectors\<rparr>\<rparr>"

subsection \<open>\<open>GET /api/bonds\<close> and \<open>GET /api/bonds/:id\<close>\<close>

record BondOption =
  option_id :: string
  option_name :: string
  option_issuer :: string
  option_rating :: BondRating

record BondsMeta =
  bonds_total :: nat

definition options :: "BondOption list" where
  "options =
     map (\<lambda>bond. \<lparr>option_id = bond_id bond, option_name = bond_name bond,
                   option_issuer = issuer bond, option_rating = bond_rating bond\<rparr>) bonds"

definition ListBondSummaries :: "(BondOption list, BondsMeta) DataMeta HttpResponse" where
  "ListBondSummaries = json \<lparr>data = options, meta = \<lparr>bonds_total = length options\<rparr>\<rparr>"

definition GetBondDetail :: "string \<Rightarrow> Bond Data HttpResponse" where
  "GetBondDetail param_id =
     (case find (\<lambda>item. bond_id item = param_id) bonds of
        None \<Rightarrow> HttpResponse 404 None
      | Some bond \<Rightarrow> json \<lparr>data = bond\<rparr>)"

subsection \<open>\<open>GET /api/services/brief\<close> and \<open>GET /api/services/instruments\<close>\<close>

definition GetServiceBrief :: "ServiceBrief Data HttpResponse" where
  "GetServiceBrief = json \<lparr>data = serviceBrief\<rparr>"

text \<open>
  \<open>instrumentsByAssetClass[key]\<close> is a property read of an ordinary object: an own
  property if there is one, otherwise the member of \<open>Object.prototype\<close> of that name
  (a built-in function, or for \<open>__proto__\<close> the prototype object itself), otherwise
  \<open>undefined\<close>.
\<close>

datatype JsValue =
  Undefined | InstrumentArray "Instrument list" | BuiltinFunction string | ObjectPrototype

definition Object_prototype_functions :: "string list" where
  "Object_prototype_functions =
     [''constructor'', ''__defineGetter__'', ''__defineSetter__'', ''hasOwnProperty'',
      ''__lookupGetter__'', ''__lookupSetter__'', ''isPrototypeOf'', ''propertyIsEnumerable'',
      ''toString'', ''valueOf'', ''toLocaleString'']"

definition propertyOf :: "(string \<times> Instrument list) list \<Rightarrow> string \<Rightarrow> JsValue" where
  "propertyOf obj key =
     (case map_of obj key of
        Some v \<Rightarrow> InstrumentArray v
      | None \<Rightarrow> if key = ''__proto__'' then ObjectPrototype
                else if key \<in> set Object_prototype_functions then BuiltinFunction key
                else Undefined)"

text \<open>Truthiness: \<open>undefined\<close> is falsy; arrays, functions and objects are truthy.\<close>

fun truthy :: "JsValue \<Rightarrow> bool" where
  "truthy Undefined = False"
| "truthy (InstrumentArray _) = True"
| "truthy (BuiltinFunction _) = True"
| "truthy ObjectPrototype = True"

definition ListInstruments :: "URLSearchParams \<Rightarrow> JsValue Data HttpResponse" where
  "ListInstruments ps =
     (case get ps ''assetClass'' of
        None \<Rightarrow> json \<lparr>data = InstrumentArray []\<rparr>
      | Some assetClassP \<Rightarrow>
          if assetClassP = [] \<or> \<not> truthy (propertyOf instrumentsByAssetClass assetClassP)
          then json \<lparr>data = InstrumentArray []\<rparr>
          else json \<lparr>data = propertyOf instrumentsByAssetClass assetClassP\<rparr>)"

section \<open>The specification's reading of the stock filters\<close>

text \<open>
  These definitions follow the wording of the specification, not the code; the theorems
  below compare the handler with them. A search accepts a record when the search string,
  both sides in lower case, is a contiguous part of ticker, one space, company name; an
  absent or empty search accepts every record.
\<close>

definition spec_search_accepts :: "string option \<Rightarrow> Stock \<Rightarrow> bool" where
  "spec_search_accepts search stock =
     (case search of
        None \<Rightarrow> True
      | Some s \<Rightarrow>
          s = [] \<or> sublist (toLowerCase s) (toLowerCase (ticker stock @ '' '' @ company stock)))"

text \<open>Sector and rating: exact equality; absence or the sentinel \<open>All\<close> disables the filter.\<close>

definition spec_exact_accepts :: "string option \<Rightarrow> string \<Rightarrow> bool" where
  "spec_exact_accepts param field =
     (case param of None \<Rightarrow> True | Some v \<Rightarrow> v = ''All'' \<or> field = v)"

text \<open>Change direction: strictly positive, strictly negative, or no condition.\<close>

definition spec_change_accepts :: "string option \<Rightarrow> Stock \<Rightarrow> bool" where
  "spec_change_accepts change stock =
     (if change = Some ''positive'' then 0 < changePercent stock
      else if change = Some ''negative'' then changePercent stock < 0
      else True)"

text \<open>
  A bound is active only when the parameter is present, not blank, and parses to a
  number; an active lower bound asks for \<open>\<ge>\<close>, an active upper bound for \<open>\<le>\<close>.
\<close>

definition spec_bound :: "(string \<Rightarrow> number) \<Rightarrow> string option \<Rightarrow> number option" where
  "spec_bound Number param =
     (case param of
        None \<Rightarrow> None
      | Some s \<Rightarrow> if trim s = [] \<or> Number s = NaN then None else Some (Number s))"

definition spec_min_accepts :: "number option \<Rightarrow> rat \<Rightarrow> bool" where
  "spec_min_accepts bound x = (case bound of None \<Rightarrow> True | Some m \<Rightarrow> js_ge (Finite x) m)"

definition spec_max_accepts :: "number option \<Rightarrow> rat \<Rightarrow> bool" where
  "spec_max_accepts bound x = (case bound of None \<Rightarrow> True | Some m \<Rightarrow> js_le (Finite x) m)"

definition spec_accepts :: "(string \<Rightarrow> number) \<Rightarrow> URLSearchParams \<Rightarrow> Stock \<Rightarrow> bool" where
  "spec_accepts Number ps stock =
     (spec_search_accepts (get ps ''search'') stock \<and>
      spec_exact_accepts (get ps ''sector'') (sector stock) \<and>
      spec_exact_accepts (get ps ''rating'') (StockRating_str (rating stock)) \<and>
      spec_change_accepts (get ps ''change'') stock \<and>
      spec_min_accepts (spec_bound Number (get ps ''minPrice'')) (price stock) \<and>
      spec_max_accepts (spec_bound Number (get ps ''maxPrice'')) (price stock) \<and>
      spec_min_accepts (spec_bound Number (get ps ''minCap'')) (marketCap stock) \<and>
      spec_max_accepts (spec_bound Number (get ps ''maxCap'')) (marketCap stock))"

text \<open>The position at which a value first occurs in a list.\<close>

definition firstIndex :: "'a list \<Rightarrow> 'a \<Rightarrow> nat" where
  "firstIndex xs a = length (takeWhile (\<lambda>x. x \<noteq> a) xs)"

section \<open>Auxiliary facts\<close>

lemma includes_str_sublist: "includes_str h n = sublist n h"
  by (induction h) (auto simp: sublist_Cons_right)

lemma js_lt_NaN_right [simp]: "js_lt a NaN = False"
  by (cases a) simp_all

lemma js_gt_NaN_right [simp]: "js_gt a NaN = False"
  by (simp add: js_gt_def)

lemma not_js_lt_Finite: "m \<noteq> NaN \<Longrightarrow> (\<not> js_lt (Finite p) m) = js_ge (Finite p) m"
  by (cases m) (auto simp: js_ge_def js_le_def)

lemma not_js_gt_Finite: "m \<noteq> NaN \<Longrightarrow> (\<not> js_gt (Finite p) m) = js_le (Finite p) m"
  by (cases m) (auto simp: js_gt_def js_le_def)

lemma js_ge_Finite [simp]: "js_ge (Finite p) (Finite m) = (m \<le> p)"
  by (auto simp: js_ge_def js_le_def)

lemma js_le_Finite [simp]: "js_le (Finite p) (Finite m) = (p \<le> m)"
  by (auto simp: js_le_def)

lemma get_delete: "get (delete k ps) k' = (if k' = k then None else get ps k')"
  by (induction ps) (auto simp: get_def delete_def)

lemma Array_from_Set_snoc: "Array_from_Set (xs @ [x]) = Set_add (Array_from_Set xs) x"
  by (simp add: Array_from_Set_def)

lemma set_Array_from_Set: "set (Array_from_Set xs) = set xs"
proof (induction xs rule: rev_induct)
  case Nil
  show ?case by (simp add: Array_from_Set_def)
next
  case (snoc x xs)
  then show ?case by (auto simp: Array_from_Set_snoc)
qed

lemma distinct_Array_from_Set: "distinct (Array_from_Set xs)"
proof (induction xs rule: rev_induct)
  case Nil
  show ?case by (simp add: Array_from_Set_def)
next
  case (snoc x xs)
  then show ?case by (simp add: Array_from_Set_snoc)
qed

lemma firstIndex_append_mem: "a \<in> set xs \<Longrightarrow> firstIndex (xs @ ys) a = firstIndex xs a"
  unfolding firstIndex_def by (induction xs) auto

lemma firstIndex_less: "a \<in> set xs \<Longrightarrow> firstIndex xs a < length xs"
  unfolding firstIndex_def by (induction xs) auto

lemma firstIndex_snoc_new: "x \<notin> set xs \<Longrightarrow> firstIndex (xs @ [x]) x = length xs"
  unfolding firstIndex_def by (induction xs) auto

lemma Array_from_Set_first_occurrence:
  "sorted_wrt (\<lambda>a b. firstIndex xs a < firstIndex xs b) (Array_from_Set xs)"
proof (induction xs rule: rev_induct)
  case Nil
  show ?case by (simp add: Array_from_Set_def)
next
  case (snoc x xs)
  have old: "sorted_wrt (\<lambda>a b. firstIndex (xs @ [x]) a < firstIndex (xs @ [x]) b) (Array_from_Set xs)"
    using snoc
    by (rule sorted_wrt_mono_rel[rotated]) (simp add: set_Array_from_Set firstIndex_append_mem)
  show ?case
  proof (cases "x \<in> set xs")
    case True
    then show ?thesis using old by (simp add: Array_from_Set_snoc set_Array_from_Set)
  next
    case False
    then show ?thesis using old
      by (auto simp: Array_from_Set_snoc set_Array_from_Set sorted_wrt_append
          firstIndex_append_mem firstIndex_snoc_new firstIndex_less)
  qed
qed

lemma find_distinct_key:
  "distinct (map f xs) \<Longrightarrow> x \<in> set xs \<Longrightarrow> find (\<lambda>y. f y = f x) xs = Some x"
  by (induction xs) (auto simp: rev_image_eqI)

lemma stockFilter_conj:
  "stockFilter se sc ra ch a b c d s =
     ((se = [] \<or> includes_str (toLowerCase (ticker s @ '' '' @ company s)) se) \<and>
      (sc = ''All'' \<or> sector s = sc) \<and>
      (ra = ''All'' \<or> StockRating_str (rating s) = ra) \<and>
      (ch \<noteq> ''positive'' \<or> 0 < changePercent s) \<and>
      (ch \<noteq> ''negative'' \<or> changePercent s < 0) \<and>
      (case a of None \<Rightarrow> True | Some m \<Rightarrow> \<not> js_lt (Finite (price s)) m) \<and>
      (case b of None \<Rightarrow> True | Some m \<Rightarrow> \<not> js_gt (Finite (price s)) m) \<and>
      (case c of None \<Rightarrow> True | Some m \<Rightarrow> \<not> js_lt (Finite (marketCap s)) m) \<and>
      (case d of None \<Rightarrow> True | Some m \<Rightarrow> \<not> js_gt (Finite (marketCap s)) m))"
proof -
  have chain: "(if A then False else B) = (\<not> A \<and> B)" for A B
    by simp
  show ?thesis
    unfolding stockFilter_def chain
    by (cases a; cases b; cases c; cases d) (simp_all add: not_le)
qed

lemma search_refines:
  "(searchOf ps = [] \<or> includes_str (toLowerCase (ticker s @ '' '' @ company s)) (searchOf ps))
     = spec_search_accepts (get ps ''search'') s"
  by (auto simp: searchOf_def spec_search_accepts_def includes_str_sublist toLowerCase_def
      split: option.splits)

lemma exact_refines:
  "(paramOr ps k ''All'' = ''All'' \<or> field = paramOr ps k ''All'') = spec_exact_accepts (get ps k) field"
  by (auto simp: paramOr_def spec_exact_accepts_def split: option.splits)

lemma change_refines:
  "((paramOr ps ''change'' ''any'' \<noteq> ''positive'' \<or> 0 < changePercent s) \<and>
    (paramOr ps ''change'' ''any'' \<noteq> ''negative'' \<or> changePercent s < 0))
     = spec_change_accepts (get ps ''change'') s"
  by (auto simp: paramOr_def spec_change_accepts_def split: option.splits)

lemma min_refines:
  "(case parseNumber Number v of None \<Rightarrow> True | Some m \<Rightarrow> \<not> js_lt (Finite x) m)
     = spec_min_accepts (spec_bound Number v) x"
  by (auto simp: parseNumber_def spec_min_accepts_def spec_bound_def not_js_lt_Finite
      split: option.splits)

lemma max_refines:
  "(case parseNumber Number v of None \<Rightarrow> True | Some m \<Rightarrow> \<not> js_gt (Finite x) m)
     = spec_max_accepts (spec_bound Number v) x"
  by (auto simp: parseNumber_def spec_max_accepts_def spec_bound_def not_js_gt_Finite
      split: option.splits)

lemma stockFilter_spec:
  "stockFilter (searchOf ps) (paramOr ps ''sector'' ''All'') (paramOr ps ''rating'' ''All'')
     (paramOr ps ''change'' ''any'') (parseNumber Number (get ps ''minPrice''))
     (parseNumber Number (get ps ''maxPrice'')) (parseNumber Number (get ps ''minCap''))
     (parseNumber Number (get ps ''maxCap'')) s = spec_accepts Number ps s"
proof -
  have sec: "(paramOr ps ''sector'' ''All'' = ''All'' \<or> sector s = paramOr ps ''sector'' ''All'')
      = spec_exact_accepts (get ps ''sector'') (sector s)"
    using exact_refines[of ps "''sector''" "sector s"] by auto
  have rat: "(paramOr ps ''rating'' ''All'' = ''All'' \<or>
       StockRating_str (rating s) = paramOr ps ''rating'' ''All'')
      = spec_exact_accepts (get ps ''rating'') (StockRating_str (rating s))"
    using exact_refines[of ps "''rating''" "StockRating_str (rating s)"] by auto
  have chg: "(paramOr ps ''change'' ''any'' \<noteq> ''positive'' \<or> 0 < changePercent s) \<and>
      (paramOr ps ''change'' ''any'' \<noteq> ''negative'' \<or> changePercent s < 0) \<and> R
      \<longleftrightarrow> spec_change_accepts (get ps ''change'') s \<and> R" for R
    using change_refines[of ps s] by auto
  show ?thesis
    unfolding stockFilter_conj spec_accepts_def
    by (simp only: search_refines sec rat chg min_refines max_refines)
qed

lemma filtered_spec: "filtered Number ps = filter (spec_accepts Number ps) stocks"
proof -
  have "stockFilter (searchOf ps) (paramOr ps ''sector'' ''All'') (paramOr ps ''rating'' ''All'')
     (paramOr ps ''change'' ''any'') (parseNumber Number (get ps ''minPrice''))
     (parseNumber Number (get ps ''maxPrice'')) (parseNumber Number (get ps ''minCap''))
     (parseNumber Number (get ps ''maxCap'')) = spec_accepts Number ps"
    by (rule ext) (rule stockFilter_spec)
  then show ?thesis by (simp add: filtered_def Let_def)
qed

lemma length_stocks: "length stocks = 30"
  by (simp add: stocks_def)

lemma filtered_sector_only:
  "filtered Number [(''sector'', v)] =
     filter (stockFilter [] v ''All'' ''any'' None None None None) stocks"
  by (simp add: filtered_def searchOf_def paramOr_def get_def parseNumber_def)

lemma energy_eval:
  "map ticker (filter (stockFilter [] ''Energy'' ''All'' ''any'' None None None None) stocks) =
     [''ALNA'', ''IONA'']"
  by code_simp

section \<open>Claims\<close>

text \<open>
  C1. For every request, the stocks handler answers with exactly the records of the
  30-record store that every active filter accepts (search, sector, rating, change
  direction and the four numeric bounds, taken together as a conjunction), in the order of
  the store: the result is the store filtered by the specification's predicate, hence a
  subsequence of the store, a subset of it, and no accepted record is missing.
\<close>

theorem ListStocks_conjunction:
  "ListStocks Number ps =
     json \<lparr>data = filter (spec_accepts Number ps) stocks,
           meta = \<lparr>meta_total = length (filter (spec_accepts Number ps) stocks),
                   meta_sectors = sectors\<rparr>\<rparr>
   \<and> subseq (filter (spec_accepts Number ps) stocks) stocks
   \<and> set (filter (spec_accepts Number ps) stocks) = {s \<in> set stocks. spec_accepts Number ps s}
   \<and> length stocks = 30"
  by (simp add: ListStocks_def filtered_spec length_stocks)

theorem ListStocks_conjunction_witness:
  "ListStocks StringToNumber [(''sector'', ''Energy'')] =
     json \<lparr>data = filter (spec_accepts StringToNumber [(''sector'', ''Energy'')]) stocks,
           meta = \<lparr>meta_total =
                     length (filter (spec_accepts StringToNumber [(''sector'', ''Energy'')]) stocks),
                   meta_sectors = sectors\<rparr>\<rparr>
   \<and> map ticker (filter (spec_accepts StringToNumber [(''sector'', ''Energy'')]) stocks) =
       [''ALNA'', ''IONA'']"
proof -
  have "map ticker (filter (spec_accepts StringToNumber [(''sector'', ''Energy'')]) stocks) =
      [''ALNA'', ''IONA'']"
    using energy_eval filtered_sector_only[of StringToNumber "''Energy''"]
    by (simp add: filtered_spec)
  then show ?thesis
    using ListStocks_conjunction[of StringToNumber "[(''sector'', ''Energy'')]"] by simp
qed

lemma zend_eval:
  "map ticker (filter (stockFilter ''zend'' ''All'' ''All'' ''any'' None None None None) stocks) = [''ZEND'']"
  by code_simp

lemma filtered_search_only:
  "filtered Number [(''search'', s)] =
     filter (stockFilter (toLowerCase s) ''All'' ''All'' ''any'' None None None None) stocks"
  by (simp add: filtered_def searchOf_def paramOr_def get_def parseNumber_def)

lemma stockFilter_search_split:
  "stockFilter (searchOf ps) sc ra ch a b c d stock =
     (spec_search_accepts (get ps ''search'') stock \<and> stockFilter [] sc ra ch a b c d stock)"
  unfolding stockFilter_conj using search_refines[of ps stock] by auto

text \<open>
  C2. The search filter accepts a record exactly when the search string, both sides taken
  to lower case, is a contiguous part of the ticker, one space and the company name; an
  absent or empty search accepts every record; and every spelling of \<open>zend\<close> in any
  letter case selects the record with ticker ZEND.
\<close>

theorem search_case_insensitive_substring:
  "stockFilter (searchOf ps) sc ra ch a b c d stock =
     (spec_search_accepts (get ps ''search'') stock \<and> stockFilter [] sc ra ch a b c d stock)
   \<and> spec_search_accepts None stock
   \<and> spec_search_accepts (Some []) stock
   \<and> spec_search_accepts (Some s) stock =
       sublist (toLowerCase s) (toLowerCase (ticker stock @ '' '' @ company stock))
   \<and> (toLowerCase s = ''zend'' \<longrightarrow> map ticker (filtered Number [(''search'', s)]) = [''ZEND''])"
proof -
  have "spec_search_accepts (Some s) stock =
       sublist (toLowerCase s) (toLowerCase (ticker stock @ '' '' @ company stock))"
    by (cases s) (simp_all add: spec_search_accepts_def toLowerCase_def)
  moreover have "toLowerCase s = ''zend'' \<longrightarrow> map ticker (filtered Number [(''search'', s)]) = [''ZEND'']"
    using zend_eval by (simp add: filtered_search_only)
  ultimately show ?thesis
    using stockFilter_search_split[of ps sc ra ch a b c d stock]
    by (simp add: spec_search_accepts_def)
qed

theorem search_case_insensitive_substring_witness:
  "map ticker (filtered StringToNumber [(''search'', ''ZeNd'')]) = [''ZEND'']"
proof -
  have h: "toLowerCase ''ZeNd'' = ''zend''" by code_simp
  show ?thesis
    using search_case_insensitive_substring[where s = "''ZeNd''" and Number = StringToNumber] h
    by blast
qed

lemma spec_accepts_delete_change:
  "spec_accepts Number (delete ''change'' ps) s =
     (spec_search_accepts (get ps ''search'') s \<and>
      spec_exact_accepts (get ps ''sector'') (sector s) \<and>
      spec_exact_accepts (get ps ''rating'') (StockRating_str (rating s)) \<and>
      spec_min_accepts (spec_bound Number (get ps ''minPrice'')) (price s) \<and>
      spec_max_accepts (spec_bound Number (get ps ''maxPrice'')) (price s) \<and>
      spec_min_accepts (spec_bound Number (get ps ''minCap'')) (marketCap s) \<and>
      spec_max_accepts (spec_bound Number (get ps ''maxCap'')) (marketCap s))"
  by (simp add: spec_accepts_def get_delete spec_change_accepts_def)

lemma filtered_change_positive:
  assumes "get ps ''change'' = Some ''positive''"
  shows "filtered Number ps =
     filter (\<lambda>s. 0 < changePercent s) (filtered Number (delete ''change'' ps))"
proof -
  have "spec_accepts Number ps s =
      (spec_accepts Number (delete ''change'' ps) s \<and> 0 < changePercent s)" for s
    unfolding spec_accepts_delete_change using assms
    by (auto simp: spec_accepts_def spec_change_accepts_def)
  then have "spec_accepts Number ps =
      (\<lambda>s. spec_accepts Number (delete ''change'' ps) s \<and> 0 < changePercent s)"
    by (simp add: fun_eq_iff)
  then show ?thesis by (simp add: filtered_spec)
qed

lemma filtered_change_negative:
  assumes "get ps ''change'' = Some ''negative''"
  shows "filtered Number ps =
     filter (\<lambda>s. changePercent s < 0) (filtered Number (delete ''change'' ps))"
proof -
  have "spec_accepts Number ps s =
      (spec_accepts Number (delete ''change'' ps) s \<and> changePercent s < 0)" for s
    unfolding spec_accepts_delete_change using assms
    by (auto simp: spec_accepts_def spec_change_accepts_def)
  then have "spec_accepts Number ps =
      (\<lambda>s. spec_accepts Number (delete ''change'' ps) s \<and> changePercent s < 0)"
    by (simp add: fun_eq_iff)
  then show ?thesis by (simp add: filtered_spec)
qed

lemma filtered_change_any:
  assumes "get ps ''change'' = Some ''any'' \<or> get ps ''change'' = None"
  shows "filtered Number ps = filtered Number (delete ''change'' ps)"
proof -
  have "spec_accepts Number ps s = spec_accepts Number (delete ''change'' ps) s" for s
    unfolding spec_accepts_delete_change using assms
    by (auto simp: spec_accepts_def spec_change_accepts_def)
  then have "spec_accepts Number ps = spec_accepts Number (delete ''change'' ps)"
    by (simp add: fun_eq_iff)
  then show ?thesis by (simp add: filtered_spec)
qed

lemma stockFilter_positive:
  "stockFilter se sc ra ''positive'' a b c d stock =
     (0 < changePercent stock \<and> stockFilter se sc ra ''any'' a b c d stock)"
  unfolding stockFilter_conj by auto

lemma stockFilter_negative:
  "stockFilter se sc ra ''negative'' a b c d stock =
     (changePercent stock < 0 \<and> stockFilter se sc ra ''any'' a b c d stock)"
  unfolding stockFilter_conj by auto

lemma stockFilter_any_independent:
  "stockFilter se sc ra ''any'' a b c d (stock\<lparr>changePercent := x\<rparr>) =
     stockFilter se sc ra ''any'' a b c d stock"
  unfolding stockFilter_conj by (simp cong: option.case_cong)

text \<open>
  C3. A record whose change-percent is exactly 0 is rejected under \<open>change=positive\<close>
  and under \<open>change=negative\<close>; \<open>positive\<close> accepts exactly the records with
  change-percent above 0 that the other filters accept, \<open>negative\<close> exactly those below
  0; under \<open>any\<close>, or with the parameter omitted, the change-percent plays no part.
\<close>

theorem change_direction_strict:
  "(changePercent stock = 0 \<longrightarrow>
      \<not> stockFilter se sc ra ''positive'' a b c d stock \<and>
      \<not> stockFilter se sc ra ''negative'' a b c d stock)
   \<and> stockFilter se sc ra ''positive'' a b c d stock =
       (0 < changePercent stock \<and> stockFilter se sc ra ''any'' a b c d stock)
   \<and> stockFilter se sc ra ''negative'' a b c d stock =
       (changePercent stock < 0 \<and> stockFilter se sc ra ''any'' a b c d stock)
   \<and> stockFilter se sc ra ''any'' a b c d (stock\<lparr>changePercent := x\<rparr>) =
       stockFilter se sc ra ''any'' a b c d stock
   \<and> (get ps ''change'' = Some ''positive'' \<longrightarrow>
        filtered Number ps =
          filter (\<lambda>s. 0 < changePercent s) (filtered Number (delete ''change'' ps)))
   \<and> (get ps ''change'' = Some ''negative'' \<longrightarrow>
        filtered Number ps =
          filter (\<lambda>s. changePercent s < 0) (filtered Number (delete ''change'' ps)))
   \<and> (get ps ''change'' = Some ''any'' \<or> get ps ''change'' = None \<longrightarrow>
        filtered Number ps = filtered Number (delete ''change'' ps))"
  using filtered_change_positive[of ps Number] filtered_change_negative[of ps Number]
    filtered_change_any[of ps Number]
  by (simp add: stockFilter_positive stockFilter_negative stockFilter_any_independent)

theorem change_direction_strict_witness:
  "\<not> stockFilter [] ''All'' ''All'' ''positive'' None None None None (hd stocks\<lparr>changePercent := 0\<rparr>)
   \<and> \<not> stockFilter [] ''All'' ''All'' ''negative'' None None None None (hd stocks\<lparr>changePercent := 0\<rparr>)
   \<and> stockFilter [] ''All'' ''All'' ''any'' None None None None (hd stocks\<lparr>changePercent := 0\<rparr>)
   \<and> filtered StringToNumber [(''change'', ''positive'')] =
       filter (\<lambda>s. 0 < changePercent s) (filtered StringToNumber [])
   \<and> filtered StringToNumber [(''change'', ''negative'')] =
       filter (\<lambda>s. changePercent s < 0) (filtered StringToNumber [])
   \<and> filtered StringToNumber [(''change'', ''any'')] = filtered StringToNumber []"
proof -
  have z: "changePercent (hd stocks\<lparr>changePercent := 0\<rparr>) = 0"
    by simp
  have g1: "get [(''change'', ''positive'')] ''change'' = Some ''positive''"
    and g2: "get [(''change'', ''negative'')] ''change'' = Some ''negative''"
    and g3: "get [(''change'', ''any'')] ''change'' = Some ''any''"
    by (simp_all add: get_def)
  have d: "delete ''change'' [(''change'', v)] = []" for v
    by (simp add: delete_def)
  have any: "stockFilter [] ''All'' ''All'' ''any'' None None None None (hd stocks\<lparr>changePercent := 0\<rparr>)"
    by (simp add: stockFilter_def)
  note inst = change_direction_strict[where stock = "hd stocks\<lparr>changePercent := 0\<rparr>"
      and se = "[]" and sc = "''All''" and ra = "''All''" and a = None and b = None
      and c = None and d = None and x = 0 and Number = StringToNumber]
  have c1: "\<not> stockFilter [] ''All'' ''All'' ''positive'' None None None None (hd stocks\<lparr>changePercent := 0\<rparr>)
      \<and> \<not> stockFilter [] ''All'' ''All'' ''negative'' None None None None (hd stocks\<lparr>changePercent := 0\<rparr>)"
    using inst[where ps = "[]"] z by blast
  have c2: "filtered StringToNumber [(''change'', ''positive'')] =
       filter (\<lambda>s. 0 < changePercent s) (filtered StringToNumber [])"
    using inst[where ps = "[(''change'', ''positive'')]"] g1 unfolding d by blast
  have c3: "filtered StringToNumber [(''change'', ''negative'')] =
       filter (\<lambda>s. changePercent s < 0) (filtered StringToNumber [])"
    using inst[where ps = "[(''change'', ''negative'')]"] g2 unfolding d by blast
  have c4: "filtered StringToNumber [(''change'', ''any'')] = filtered StringToNumber []"
    using inst[where ps = "[(''change'', ''any'')]"] g3 unfolding d by blast
  show ?thesis
    using c1 any c2 c3 c4 by blast
qed

lemma stockFilter_minPrice:
  "m \<noteq> NaN \<Longrightarrow> stockFilter se sc ra ch (Some m) b c d stock =
     (js_ge (Finite (price stock)) m \<and> stockFilter se sc ra ch None b c d stock)"
  unfolding stockFilter_conj by (auto simp: not_js_lt_Finite)

lemma stockFilter_maxPrice:
  "m \<noteq> NaN \<Longrightarrow> stockFilter se sc ra ch a (Some m) c d stock =
     (js_le (Finite (price stock)) m \<and> stockFilter se sc ra ch a None c d stock)"
  unfolding stockFilter_conj by (auto simp: not_js_gt_Finite)

lemma stockFilter_minCap:
  "m \<noteq> NaN \<Longrightarrow> stockFilter se sc ra ch a b (Some m) d stock =
     (js_ge (Finite (marketCap stock)) m \<and> stockFilter se sc ra ch a b None d stock)"
  unfolding stockFilter_conj by (auto simp: not_js_lt_Finite)

lemma stockFilter_maxCap:
  "m \<noteq> NaN \<Longrightarrow> stockFilter se sc ra ch a b c (Some m) stock =
     (js_le (Finite (marketCap stock)) m \<and> stockFilter se sc ra ch a b c None stock)"
  unfolding stockFilter_conj by (auto simp: not_js_gt_Finite)

lemma filtered_minPrice:
  assumes "get ps ''minPrice'' = Some str" "trim str \<noteq> []" "Number str = Finite y"
  shows "filtered Number ps =
     filter (\<lambda>s. y \<le> price s) (filtered Number (delete ''minPrice'' ps))"
proof -
  have "spec_accepts Number ps =
      (\<lambda>s. spec_accepts Number (delete ''minPrice'' ps) s \<and> y \<le> price s)"
    using assms
    by (auto simp: fun_eq_iff spec_accepts_def get_delete spec_bound_def spec_min_accepts_def)
  then show ?thesis by (simp add: filtered_spec)
qed

lemma filtered_maxPrice:
  assumes "get ps ''maxPrice'' = Some str" "trim str \<noteq> []" "Number str = Finite y"
  shows "filtered Number ps =
     filter (\<lambda>s. price s \<le> y) (filtered Number (delete ''maxPrice'' ps))"
proof -
  have "spec_accepts Number ps =
      (\<lambda>s. spec_accepts Number (delete ''maxPrice'' ps) s \<and> price s \<le> y)"
    using assms
    by (auto simp: fun_eq_iff spec_accepts_def get_delete spec_bound_def spec_max_accepts_def)
  then show ?thesis by (simp add: filtered_spec)
qed

lemma filtered_minCap:
  assumes "get ps ''minCap'' = Some str" "trim str \<noteq> []" "Number str = Finite y"
  shows "filtered Number ps =
     filter (\<lambda>s. y \<le> marketCap s) (filtered Number (delete ''minCap'' ps))"
proof -
  have "spec_accepts Number ps =
      (\<lambda>s. spec_accepts Number (delete ''minCap'' ps) s \<and> y \<le> marketCap s)"
    using assms
    by (auto simp: fun_eq_iff spec_accepts_def get_delete spec_bound_def spec_min_accepts_def)
  then show ?thesis by (simp add: filtered_spec)
qed

lemma filtered_maxCap:
  assumes "get ps ''maxCap'' = Some str" "trim str \<noteq> []" "Number str = Finite y"
  shows "filtered Number ps =
     filter (\<lambda>s. marketCap s \<le> y) (filtered Number (delete ''maxCap'' ps))"
proof -
  have "spec_accepts Number ps =
      (\<lambda>s. spec_accepts Number (delete ''maxCap'' ps) s \<and> marketCap s \<le> y)"
    using assms
    by (auto simp: fun_eq_iff spec_accepts_def get_delete spec_bound_def spec_max_accepts_def)
  then show ?thesis by (simp add: filtered_spec)
qed

text \<open>
  C4. The price and market-cap bounds are inclusive. For a bound that parsed to a number,
  the record passes the lower bound exactly when its value is \<open>\<ge>\<close> the bound and the
  upper bound exactly when it is \<open>\<le>\<close> the bound, the other filters unchanged; a bound
  equal to the record's own price lets the record through.
\<close>

theorem bounds_inclusive:
  "(m \<noteq> NaN \<longrightarrow>
      stockFilter se sc ra ch (Some m) b c d stock =
        (js_ge (Finite (price stock)) m \<and> stockFilter se sc ra ch None b c d stock)
    \<and> stockFilter se sc ra ch a (Some m) c d stock =
        (js_le (Finite (price stock)) m \<and> stockFilter se sc ra ch a None c d stock)
    \<and> stockFilter se sc ra ch a b (Some m) d stock =
        (js_ge (Finite (marketCap stock)) m \<and> stockFilter se sc ra ch a b None d stock)
    \<and> stockFilter se sc ra ch a b c (Some m) stock =
        (js_le (Finite (marketCap stock)) m \<and> stockFilter se sc ra ch a b c None stock))
   \<and> js_ge (Finite x) (Finite y) = (y \<le> x)
   \<and> js_le (Finite x) (Finite y) = (x \<le> y)
   \<and> stockFilter se sc ra ch (Some (Finite (price stock))) b c d stock =
       stockFilter se sc ra ch None b c d stock
   \<and> stockFilter se sc ra ch a (Some (Finite (price stock))) c d stock =
       stockFilter se sc ra ch a None c d stock
   \<and> (get ps k = Some str \<and> trim str \<noteq> [] \<and> Number str = Finite y \<longrightarrow>
        (k = ''minPrice'' \<longrightarrow>
           filtered Number ps = filter (\<lambda>s. y \<le> price s) (filtered Number (delete k ps)))
      \<and> (k = ''maxPrice'' \<longrightarrow>
           filtered Number ps = filter (\<lambda>s. price s \<le> y) (filtered Number (delete k ps)))
      \<and> (k = ''minCap'' \<longrightarrow>
           filtered Number ps = filter (\<lambda>s. y \<le> marketCap s) (filtered Number (delete k ps)))
      \<and> (k = ''maxCap'' \<longrightarrow>
           filtered Number ps = filter (\<lambda>s. marketCap s \<le> y) (filtered Number (delete k ps))))"
proof -
  have cb: "m \<noteq> NaN \<longrightarrow>
      stockFilter se sc ra ch (Some m) b c d stock =
        (js_ge (Finite (price stock)) m \<and> stockFilter se sc ra ch None b c d stock)
    \<and> stockFilter se sc ra ch a (Some m) c d stock =
        (js_le (Finite (price stock)) m \<and> stockFilter se sc ra ch a None c d stock)
    \<and> stockFilter se sc ra ch a b (Some m) d stock =
        (js_ge (Finite (marketCap stock)) m \<and> stockFilter se sc ra ch a b None d stock)
    \<and> stockFilter se sc ra ch a b c (Some m) stock =
        (js_le (Finite (marketCap stock)) m \<and> stockFilter se sc ra ch a b c None stock)"
    by (simp add: stockFilter_minPrice stockFilter_maxPrice stockFilter_minCap
        stockFilter_maxCap)
  have eq1: "stockFilter se sc ra ch (Some (Finite (price stock))) b c d stock =
       stockFilter se sc ra ch None b c d stock"
    by (simp add: stockFilter_minPrice)
  have eq2: "stockFilter se sc ra ch a (Some (Finite (price stock))) c d stock =
       stockFilter se sc ra ch a None c d stock"
    by (simp add: stockFilter_maxPrice)
  have hl: "get ps k = Some str \<and> trim str \<noteq> [] \<and> Number str = Finite y \<longrightarrow>
        (k = ''minPrice'' \<longrightarrow>
           filtered Number ps = filter (\<lambda>s. y \<le> price s) (filtered Number (delete k ps)))
      \<and> (k = ''maxPrice'' \<longrightarrow>
           filtered Number ps = filter (\<lambda>s. price s \<le> y) (filtered Number (delete k ps)))
      \<and> (k = ''minCap'' \<longrightarrow>
           filtered Number ps = filter (\<lambda>s. y \<le> marketCap s) (filtered Number (delete k ps)))
      \<and> (k = ''maxCap'' \<longrightarrow>
           filtered Number ps = filter (\<lambda>s. marketCap s \<le> y) (filtered Number (delete k ps)))"
    by (auto intro: filtered_minPrice filtered_maxPrice filtered_minCap filtered_maxCap)
  show ?thesis
    by (intro conjI cb eq1 eq2 hl js_ge_Finite js_le_Finite)
qed

lemmas StringToNumber_defs = StringToNumber_def trim_def isWhiteSpace_def unsignedLiteral_def
  decimalLiteral_def isDigitIn_def digitValue_def digitsValue_def exponentPart_def
  radixLiteral_def number_negate_def Let_def

theorem bounds_inclusive_witness:
  "price (hd stocks) = 84.12
   \<and> stockFilter [] ''All'' ''All'' ''any'' (Some (Finite 84.12)) None None None (hd stocks)
   \<and> stockFilter [] ''All'' ''All'' ''any'' None (Some (Finite 84.12)) None None (hd stocks)
   \<and> filtered StringToNumber [(''minPrice'', ''84.12'')] =
       filter (\<lambda>s. 84.12 \<le> price s) (filtered StringToNumber [])
   \<and> filtered StringToNumber [(''maxPrice'', ''84.12'')] =
       filter (\<lambda>s. price s \<le> 84.12) (filtered StringToNumber [])"
proof -
  have p: "price (hd stocks) = 84.12"
    by (simp add: stocks_def)
  have base: "stockFilter [] ''All'' ''All'' ''any'' None None None None (hd stocks)"
    by (simp add: stockFilter_def)
  have n: "StringToNumber ''84.12'' = Finite 84.12"
    by (simp add: StringToNumber_defs)
  have t: "trim ''84.12'' \<noteq> []"
    by (simp add: trim_def isWhiteSpace_def)
  have g1: "get [(''minPrice'', ''84.12'')] ''minPrice'' = Some ''84.12''"
    and g2: "get [(''maxPrice'', ''84.12'')] ''maxPrice'' = Some ''84.12''"
    by (simp_all add: get_def)
  have d1: "delete ''minPrice'' [(''minPrice'', ''84.12'')] = []"
    and d2: "delete ''maxPrice'' [(''maxPrice'', ''84.12'')] = []"
    by (simp_all add: delete_def)
  note inst = bounds_inclusive[where stock = "hd stocks" and se = "[]" and sc = "''All''"
      and ra = "''All''" and ch = "''any''" and a = None and b = None and c = None and d = None
      and m = "Finite 84.12" and x = "84.12" and y = "84.12" and str = "''84.12''"
      and Number = StringToNumber]
  have c1: "stockFilter [] ''All'' ''All'' ''any'' (Some (Finite 84.12)) None None None (hd stocks)
      \<and> stockFilter [] ''All'' ''All'' ''any'' None (Some (Finite 84.12)) None None (hd stocks)"
    using inst[where ps = "[]" and k = "[]"] base unfolding p by simp
  have c2: "filtered StringToNumber [(''minPrice'', ''84.12'')] =
       filter (\<lambda>s. 84.12 \<le> price s) (filtered StringToNumber [])"
    using inst[where ps = "[(''minPrice'', ''84.12'')]" and k = "''minPrice''"] g1 n t
    unfolding d1 by simp
  have c3: "filtered StringToNumber [(''maxPrice'', ''84.12'')] =
       filter (\<lambda>s. price s \<le> 84.12) (filtered StringToNumber [])"
    using inst[where ps = "[(''maxPrice'', ''84.12'')]" and k = "''maxPrice''"] g2 n t
    unfolding d2 by simp
  show ?thesis
    using p c1 c2 c3 by simp
qed

lemma status_ListStocks: "status (ListStocks Number ps) = 200"
  by (simp add: ListStocks_def json_def)

lemma spec_accepts_delete_bound:
  assumes "k \<in> {''minPrice'', ''maxPrice'', ''minCap'', ''maxCap''}"
    and "spec_bound Number (get ps k) = None"
  shows "spec_accepts Number ps = spec_accepts Number (delete k ps)"
proof -
  have n: "spec_bound Number None = None"
    by (simp add: spec_bound_def)
  from assms(1) consider "k = ''minPrice''" | "k = ''maxPrice''" | "k = ''minCap''" | "k = ''maxCap''"
    by auto
  then show ?thesis
  proof cases
    case 1
    then show ?thesis using assms(2) by (simp add: fun_eq_iff spec_accepts_def get_delete n)
  next
    case 2
    then show ?thesis using assms(2) by (simp add: fun_eq_iff spec_accepts_def get_delete n)
  next
    case 3
    then show ?thesis using assms(2) by (simp add: fun_eq_iff spec_accepts_def get_delete n)
  next
    case 4
    then show ?thesis using assms(2) by (simp add: fun_eq_iff spec_accepts_def get_delete n)
  qed
qed

text \<open>
  C5. A bound parameter (\<open>minPrice\<close>, \<open>maxPrice\<close>, \<open>minCap\<close>, \<open>maxCap\<close>) that is
  absent, blank, or a string that \<open>Number\<close> turns into \<open>NaN\<close> changes nothing: the
  response is the one of the same request without that parameter, and it is a normal
  response (status 200), never an error.
\<close>

theorem malformed_bound_is_absent:
  assumes "k \<in> {''minPrice'', ''maxPrice'', ''minCap'', ''maxCap''}"
    and "get ps k = None \<or> (\<exists>str. get ps k = Some str \<and> (trim str = [] \<or> Number str = NaN))"
  shows "ListStocks Number ps = ListStocks Number (delete k ps)
    \<and> status (ListStocks Number ps) = 200
    \<and> (\<exists>r. ListStocks Number ps = json r)"
proof -
  have "spec_bound Number (get ps k) = None"
    using assms(2) by (auto simp: spec_bound_def)
  then have "spec_accepts Number ps = spec_accepts Number (delete k ps)"
    using assms(1) by (rule spec_accepts_delete_bound[rotated])
  then have "filtered Number ps = filtered Number (delete k ps)"
    by (simp add: filtered_spec)
  then show ?thesis
    by (simp add: ListStocks_def json_def)
qed

theorem malformed_bound_is_absent_witness:
  "StringToNumber ''12abc'' = NaN
   \<and> ListStocks StringToNumber [(''minPrice'', ''12abc''), (''change'', ''negative'')] =
       ListStocks StringToNumber [(''change'', ''negative'')]
   \<and> ListStocks StringToNumber [(''maxCap'', ''  ''), (''change'', ''negative'')] =
       ListStocks StringToNumber [(''change'', ''negative'')]
   \<and> status (ListStocks StringToNumber [(''minPrice'', ''12abc''), (''change'', ''negative'')]) = 200"
proof -
  have n: "StringToNumber ''12abc'' = NaN"
    by (simp add: StringToNumber_defs)
  have t: "trim ''  '' = []"
    by (simp add: trim_def isWhiteSpace_def)
  have k1: "''minPrice'' \<in> {''minPrice'', ''maxPrice'', ''minCap'', ''maxCap''}"
    and k2: "''maxCap'' \<in> {''minPrice'', ''maxPrice'', ''minCap'', ''maxCap''}"
    by simp_all
  have g1: "get [(''minPrice'', ''12abc''), (''change'', ''negative'')] ''minPrice'' = None \<or>
      (\<exists>str. get [(''minPrice'', ''12abc''), (''change'', ''negative'')] ''minPrice'' = Some str \<and>
         (trim str = [] \<or> StringToNumber str = NaN))"
    using n by (simp add: get_def)
  have g2: "get [(''maxCap'', ''  ''), (''change'', ''negative'')] ''maxCap'' = None \<or>
      (\<exists>str. get [(''maxCap'', ''  ''), (''change'', ''negative'')] ''maxCap'' = Some str \<and>
         (trim str = [] \<or> StringToNumber str = NaN))"
    using t by (simp add: get_def)
  have d1: "delete ''minPrice'' [(''minPrice'', ''12abc''), (''change'', ''negative'')] =
      [(''change'', ''negative'')]"
    and d2: "delete ''maxCap'' [(''maxCap'', ''  ''), (''change'', ''negative'')] =
      [(''change'', ''negative'')]"
    by (simp_all add: delete_def)
  show ?thesis
    using n malformed_bound_is_absent[OF k1 g1] malformed_bound_is_absent[OF k2 g2]
    unfolding d1 d2 by (simp add: status_ListStocks)
qed

lemma sectors_value:
  "sectors = [''Energy'', ''Technology'', ''Industrials'', ''Consumer Staples'',
     ''Consumer Discretionary'', ''Utilities'', ''Healthcare'', ''Financials'',
     ''Communication Services'', ''Materials'']"
  by code_simp

text \<open>
  C6. Whatever the filters, the \<open>sectors\<close> entry of the response's metadata is the list
  of distinct sector values of the whole 30-record store, and \<open>total\<close> is the number of
  records in the filtered result; a request for \<open>sector=Energy\<close> returns two records and
  still all ten sectors.
\<close>

theorem sectors_meta_store_wide:
  "(\<exists>r. ListStocks Number ps = json r \<and> data r = filtered Number ps
        \<and> meta_sectors (meta r) = sectors \<and> meta_total (meta r) = length (data r))
   \<and> set sectors = sector ` set stocks
   \<and> distinct sectors
   \<and> length stocks = 30
   \<and> (\<exists>r. ListStocks Number [(''sector'', ''Energy'')] = json r
        \<and> map ticker (data r) = [''ALNA'', ''IONA'']
        \<and> meta_total (meta r) = 2
        \<and> meta_sectors (meta r) =
            [''Energy'', ''Technology'', ''Industrials'', ''Consumer Staples'',
             ''Consumer Discretionary'', ''Utilities'', ''Healthcare'', ''Financials'',
             ''Communication Services'', ''Materials''])"
proof -
  have e: "map ticker (filtered Number [(''sector'', ''Energy'')]) = [''ALNA'', ''IONA'']"
    using energy_eval by (simp add: filtered_sector_only)
  then have l: "length (filtered Number [(''sector'', ''Energy'')]) = 2"
    by (metis length_map length_Cons list.size(3) numeral_2_eq_2)
  have s: "set sectors = sector ` set stocks" "distinct sectors"
    by (simp_all add: sectors_def set_Array_from_Set distinct_Array_from_Set)
  show ?thesis
    using e l s sectors_value length_stocks by (simp add: ListStocks_def json_def)
qed


lemma length_bonds: "length bonds = 5"
  by (simp add: bonds_def)

lemma bond_ids: "map bond_id bonds = [''bond-001'', ''bond-002'', ''bond-003'', ''bond-004'', ''bond-005'']"
  by (simp add: bonds_def)

lemma status_ListBondSummaries: "status ListBondSummaries = 200"
  by (simp add: ListBondSummaries_def json_def)

lemma status_GetServiceBrief: "status GetServiceBrief = 200"
  by (simp add: GetServiceBrief_def json_def)

lemma status_ListInstruments: "status (ListInstruments qs) = 200"
  by (simp add: ListInstruments_def json_def split: option.splits)

text \<open>
  C9. The bond list handler returns every bond of the store, in store order and without
  filtering, each reduced to the four fields id, name, issuer and rating, and its
  \<open>total\<close> is the number of bonds in the store, 5.
\<close>

theorem ListBondSummaries_projection:
  "ListBondSummaries =
     json \<lparr>data = map (\<lambda>bond. \<lparr>option_id = bond_id bond, option_name = bond_name bond,
                                 option_issuer = issuer bond, option_rating = bond_rating bond\<rparr>)
                       bonds,
           meta = \<lparr>bonds_total = 5\<rparr>\<rparr>
   \<and> length options = length bonds
   \<and> length bonds = 5
   \<and> map option_id options = map bond_id bonds
   \<and> map option_name options = map bond_name bonds
   \<and> map option_issuer options = map issuer bonds
   \<and> map option_rating options = map bond_rating bonds
   \<and> map option_id options =
       [''bond-001'', ''bond-002'', ''bond-003'', ''bond-004'', ''bond-005'']"
  using bond_ids
  by (simp add: ListBondSummaries_def options_def length_bonds comp_def)

lemma find_Some_mem: "find P xs = Some x \<Longrightarrow> x \<in> set xs \<and> P x"
  by (induction xs) (auto split: if_splits)

lemma GetBondDetail_404_iff:
  "(GetBondDetail i = HttpResponse 404 None) = (i \<notin> bond_id ` set bonds)"
proof (cases "find (\<lambda>item. bond_id item = i) bonds")
  case None
  then have "i \<notin> bond_id ` set bonds"
    by (auto simp: find_None_iff)
  then show ?thesis
    using None by (simp add: GetBondDetail_def)
next
  case (Some b)
  then show ?thesis
    using find_Some_mem[OF Some] by (auto simp: GetBondDetail_def json_def)
qed

lemma GetBondDetail_status_iff:
  "(status (GetBondDetail i) = 404) = (i \<notin> bond_id ` set bonds)"
  "(status (GetBondDetail i) = 200) = (i \<in> bond_id ` set bonds)"
proof -
  have "GetBondDetail i = HttpResponse 404 None \<or> (\<exists>r. GetBondDetail i = json r)"
    by (auto simp: GetBondDetail_def split: option.splits)
  then show "(status (GetBondDetail i) = 404) = (i \<notin> bond_id ` set bonds)"
    and "(status (GetBondDetail i) = 200) = (i \<in> bond_id ` set bonds)"
    using GetBondDetail_404_iff[of i] by (auto simp: json_def)
qed

text \<open>
  C7. The bond detail handler returns the bond whose id equals the requested id when the
  store has one, and answers 404 (not found) exactly when no bond has that id; no other
  handler ever answers with anything but status 200. In particular the id
  \<open>does-not-exist\<close> gives 404.
\<close>

theorem GetBondDetail_exact_match:
  "(bond \<in> set bonds \<longrightarrow> GetBondDetail (bond_id bond) = json \<lparr>data = bond\<rparr>)
   \<and> (GetBondDetail i = json r \<longrightarrow> data r \<in> set bonds \<and> bond_id (data r) = i)
   \<and> (GetBondDetail i = HttpResponse 404 None) = (i \<notin> bond_id ` set bonds)
   \<and> (status (GetBondDetail i) = 404) = (i \<notin> bond_id ` set bonds)
   \<and> (status (GetBondDetail i) = 200) = (i \<in> bond_id ` set bonds)
   \<and> GetBondDetail ''does-not-exist'' = HttpResponse 404 None
   \<and> status (ListStocks Number ps) = 200
   \<and> status ListBondSummaries = 200
   \<and> status GetServiceBrief = 200
   \<and> status (ListInstruments qs) = 200"
proof -
  have d: "distinct (map bond_id bonds)"
    by (simp add: bond_ids)
  have a: "bond \<in> set bonds \<longrightarrow> GetBondDetail (bond_id bond) = json \<lparr>data = bond\<rparr>"
    using find_distinct_key[OF d, of bond] by (simp add: GetBondDetail_def)
  have b: "GetBondDetail i = json r \<longrightarrow> data r \<in> set bonds \<and> bond_id (data r) = i"
    by (auto simp: GetBondDetail_def json_def split: option.splits dest: find_Some_mem)
  note c = GetBondDetail_404_iff[of i]
  note c' = GetBondDetail_status_iff(1)[of i]
  note c'' = GetBondDetail_status_iff(2)[of i]
  have "''does-not-exist'' \<notin> set (map bond_id bonds)"
    unfolding bond_ids by simp
  then have e: "GetBondDetail ''does-not-exist'' = HttpResponse 404 None"
    by (simp add: GetBondDetail_404_iff)
  show ?thesis
    by (intro conjI a b c c' c'' e status_ListStocks status_ListBondSummaries
        status_GetServiceBrief status_ListInstruments)
qed


theorem GetBondDetail_exact_match_witness:
  "bonds ! 2 \<in> set bonds
   \<and> bond_id (bonds ! 2) = ''bond-003''
   \<and> GetBondDetail ''bond-003'' = json \<lparr>data = bonds ! 2\<rparr>
   \<and> bond_name (bonds ! 2) = ''Solara Grid 2040''
   \<and> nextCall (bonds ! 2) = Some ''2035-11-30''
   \<and> data \<lparr>data = bonds ! 2\<rparr> \<in> set bonds"
proof -
  have m: "bonds ! 2 \<in> set bonds"
    by (simp add: length_bonds)
  have i: "bond_id (bonds ! 2) = ''bond-003''"
    and n: "bond_name (bonds ! 2) = ''Solara Grid 2040''"
    and c: "nextCall (bonds ! 2) = Some ''2035-11-30''"
    by (simp_all add: bonds_def)
  note inst = GetBondDetail_exact_match[where bond = "bonds ! 2" and i = "''bond-003''"
      and r = "\<lparr>data = bonds ! 2\<rparr>" and Number = StringToNumber and ps = "[]" and qs = "[]"]
  have g: "GetBondDetail ''bond-003'' = json \<lparr>data = bonds ! 2\<rparr>"
    using inst m unfolding i by blast
  have "data \<lparr>data = bonds ! 2\<rparr> \<in> set bonds"
    using inst g by blast
  then show ?thesis
    using m i n c g by simp
qed

text \<open>
  C10. The \<open>sectors\<close> list holds every sector of the store exactly once, in the order
  in which the sectors first occur among the 30 records (Energy, Technology, Industrials,
  Consumer Staples, Consumer Discretionary, and so on), and every response carries this
  same list.
\<close>

theorem sectors_first_occurrence_order:
  "distinct sectors
   \<and> set sectors = set (map sector stocks)
   \<and> sorted_wrt (\<lambda>a b. firstIndex (map sector stocks) a < firstIndex (map sector stocks) b)
        sectors
   \<and> sectors =
       [''Energy'', ''Technology'', ''Industrials'', ''Consumer Staples'',
        ''Consumer Discretionary'', ''Utilities'', ''Healthcare'', ''Financials'',
        ''Communication Services'', ''Materials'']
   \<and> (\<exists>r r'. ListStocks Number ps = json r \<and> ListStocks Number' ps' = json r'
        \<and> meta_sectors (meta r) = sectors \<and> meta_sectors (meta r') = sectors)"
proof -
  have a: "distinct sectors" and b: "set sectors = set (map sector stocks)"
    by (simp_all add: sectors_def set_Array_from_Set distinct_Array_from_Set)
  have c: "sorted_wrt (\<lambda>a b. firstIndex (map sector stocks) a < firstIndex (map sector stocks) b)
        sectors"
    unfolding sectors_def by (rule Array_from_Set_first_occurrence)
  have d: "\<exists>r r'. ListStocks Number ps = json r \<and> ListStocks Number' ps' = json r'
        \<and> meta_sectors (meta r) = sectors \<and> meta_sectors (meta r') = sectors"
    by (simp add: ListStocks_def json_def)
  show ?thesis
    by (intro conjI a b c d sectors_value)
qed

lemma instruments_keys:
  "map fst instrumentsByAssetClass = [''equities'', ''fixed-income'', ''alternatives'', ''multi-asset'']"
  by (simp add: instrumentsByAssetClass_def)

lemma ListInstruments_known:
  "map_of instrumentsByAssetClass key = Some v \<Longrightarrow>
     ListInstruments [(''assetClass'', key)] = json \<lparr>data = InstrumentArray v\<rparr>"
proof -
  assume h: "map_of instrumentsByAssetClass key = Some v"
  then have "key \<in> set (map fst instrumentsByAssetClass)"
    by (metis map_of_eq_None_iff option.distinct(1) set_map)
  then have "key \<noteq> []"
    unfolding instruments_keys by auto
  then show ?thesis
    using h by (simp add: ListInstruments_def get_def propertyOf_def)
qed

lemma ListInstruments_unknown:
  "get ps ''assetClass'' = None \<or>
   (\<exists>key. get ps ''assetClass'' = Some key \<and> key \<notin> set (map fst instrumentsByAssetClass) \<and>
      key \<noteq> ''__proto__'' \<and> key \<notin> set Object_prototype_functions)
   \<Longrightarrow> ListInstruments ps = json \<lparr>data = InstrumentArray []\<rparr>"
  by (auto simp: ListInstruments_def propertyOf_def map_of_eq_None_iff[THEN iffD2]
      split: option.splits)

lemma ListInstruments_equities:
  "ListInstruments [(''assetClass'', ''equities'')] = json \<lparr>data = InstrumentArray [
    \<lparr>inst_id = ''inst-eq-001'', inst_name = ''Global Equity Fund'', inst_ticker = ''GLEQ''\<rparr>,
    \<lparr>inst_id = ''inst-eq-002'', inst_name = ''US Large Cap Growth'', inst_ticker = ''USLCG''\<rparr>,
    \<lparr>inst_id = ''inst-eq-003'', inst_name = ''Emerging Markets Fund'', inst_ticker = ''EMMK''\<rparr>,
    \<lparr>inst_id = ''inst-eq-004'', inst_name = ''Tech Innovation ETF'', inst_ticker = ''TCHIN''\<rparr>,
    \<lparr>inst_id = ''inst-eq-005'', inst_name = ''Dividend Aristocrats'', inst_ticker = ''DVAR''\<rparr>]\<rparr>"
  by (rule ListInstruments_known) (simp add: instrumentsByAssetClass_def)

lemma ListInstruments_not_a_class:
  "ListInstruments [(''assetClass'', ''not-a-class'')] = json \<lparr>data = InstrumentArray []\<rparr>"
  "ListInstruments [] = json \<lparr>data = InstrumentArray []\<rparr>"
  by (rule ListInstruments_unknown;
      simp add: get_def instruments_keys Object_prototype_functions_def)+

text \<open>
  C8. The instruments handler returns the fixed five-instrument list for each of the four
  recognised keys, and the empty list for an absent key and for every unrecognised key
  that is not also a member name of \<open>Object.prototype\<close>. For such a name the guard
  \<open>!instrumentsByAssetClass[assetClass]\<close> does not fire, because the property read
  finds the inherited member: \<open>assetClass=__proto__\<close> is answered with the prototype
  object and \<open>assetClass=constructor\<close> with a built-in function, not with an empty list.
\<close>

theorem ListInstruments_inherited_member:
  "ListInstruments [(''assetClass'', ''__proto__'')] = json \<lparr>data = ObjectPrototype\<rparr>
   \<and> ListInstruments [(''assetClass'', ''__proto__'')] \<noteq> json \<lparr>data = InstrumentArray []\<rparr>
   \<and> ListInstruments [(''assetClass'', ''constructor'')] =
       json \<lparr>data = BuiltinFunction ''constructor''\<rparr>
   \<and> ListInstruments [(''assetClass'', ''constructor'')] \<noteq> json \<lparr>data = InstrumentArray []\<rparr>"
  by (simp add: ListInstruments_def get_def propertyOf_def instrumentsByAssetClass_def
      Object_prototype_functions_def json_def)

end
